theory Spec2Isabelle
  imports Main "HOL-Library.AList"
begin

section \<open>The order service (services/order-service/index.js)\<close>

text \<open>
  The service keeps its orders in one process-wide object \<open>orders\<close> and serves four
  routes. The three routes that read are synchronous. The creation route suspends at each
  \<open>await axios.get(...)\<close>; everything after the last await (reading the clock, building
  the order, writing it into \<open>orders\<close>, answering) runs without suspension. Requests
  therefore interleave only while one of them waits for an external check, and the store
  sees creations one at a time, in the order in which they pass their last check.
  Every external call is taken to settle (resolve or reject); the source sets no timeout,
  and a call that never settles leaves its request without an answer and the store as it is.
\<close>

subsection \<open>Values of a parsed JSON body\<close>

text \<open>
  \<open>req.body\<close>, \<open>userId\<close>, \<open>items\<close> and each \<open>item\<close> are whatever the caller sent.
  A number is represented by the text that ECMAScript's number-to-string conversion gives
  for it: the handler only renders numbers into URLs and passes them through. A string is
  the list of its code points (within the range of \<^typ>\<open>char\<close>). The property list of an
  object is in property order; a parsed object has each key once. \<open>JUndefined\<close> is the
  value of a missing property (and of a body that was never parsed).
\<close>

datatype json =
    JUndefined
  | JNull
  | JBool bool
  | JNum string
  | JStr string
  | JArr "json list"
  | JObj "(string \<times> json) list"

text \<open>What a \<open>try\<close> block can catch here: a rejected \<open>axios.get\<close>, or a TypeError of the engine.\<close>

datatype js_error = AxiosError string | TypeError string

fun message :: "js_error \<Rightarrow> string" where
  "message (AxiosError m) = m"
| "message (TypeError m) = m"

text \<open>
  The property names of \<open>Object.prototype\<close> (Node.js), which every object literal
  inherits. None of them is \<open>userId\<close>, \<open>items\<close> or \<open>productId\<close>.
\<close>

definition Object_prototype_names :: "string list" where
  "Object_prototype_names =
     [''constructor'', ''__defineGetter__'', ''__defineSetter__'', ''hasOwnProperty'',
      ''__lookupGetter__'', ''__lookupSetter__'', ''isPrototypeOf'', ''propertyIsEnumerable'',
      ''toString'', ''valueOf'', ''__proto__'', ''toLocaleString'']"

text \<open>
  \<open>v.name\<close> for one of the names \<open>userId\<close>, \<open>items\<close>, \<open>productId\<close>: an own property of
  an object, \<open>undefined\<close> on every other value that has properties, a TypeError on
  \<open>null\<close> and \<open>undefined\<close>. The message texts are those of V8.
\<close>

fun get_field :: "string \<Rightarrow> json \<Rightarrow> js_error + json" where
  "get_field name JUndefined =
     Inl (TypeError (''Cannot read properties of undefined (reading '' @ [CHR 0x27] @ name @ [CHR 0x27] @ '')''))"
| "get_field name JNull =
     Inl (TypeError (''Cannot read properties of null (reading '' @ [CHR 0x27] @ name @ [CHR 0x27] @ '')''))"
| "get_field name (JObj props) =
     Inr (case map_of props name of Some v \<Rightarrow> v | None \<Rightarrow> JUndefined)"
| "get_field name v = Inr JUndefined"

text \<open>\<open>const { userId, items } = req.body\<close>\<close>

fun destructure :: "json \<Rightarrow> js_error + (json \<times> json)" where
  "destructure JUndefined =
     Inl (TypeError (''Cannot destructure property '' @ [CHR 0x27] @ ''userId'' @ [CHR 0x27] @ '' of ''
            @ [CHR 0x27] @ ''req.body'' @ [CHR 0x27] @ '' as it is undefined.''))"
| "destructure JNull =
     Inl (TypeError (''Cannot destructure property '' @ [CHR 0x27] @ ''userId'' @ [CHR 0x27] @ '' of ''
            @ [CHR 0x27] @ ''req.body'' @ [CHR 0x27] @ '' as it is null.''))"
| "destructure body =
     (case get_field ''userId'' body of
        Inl e \<Rightarrow> Inl e
      | Inr u \<Rightarrow> (case get_field ''items'' body of Inl e \<Rightarrow> Inl e | Inr its \<Rightarrow> Inr (u, its)))"

text \<open>
  The string a template literal \<open>`${v}`\<close> puts in for \<open>v\<close>. An array is its elements
  joined by commas, \<open>null\<close> and \<open>undefined\<close> elements giving nothing. An object literal
  gives \<open>[object Object]\<close>, unless it has an own property \<open>toString\<close>: a JSON value is
  not callable, and the conversion then throws.
\<close>

fun intercalate :: "string \<Rightarrow> string list \<Rightarrow> string" where
  "intercalate sep [] = []"
| "intercalate sep [s] = s"
| "intercalate sep (s # t # rest) = s @ sep @ intercalate sep (t # rest)"

fun to_string :: "json \<Rightarrow> js_error + string"
  and join_elements :: "json list \<Rightarrow> js_error + string list" where
  "to_string JUndefined = Inr ''undefined''"
| "to_string JNull = Inr ''null''"
| "to_string (JBool b) = Inr (if b then ''true'' else ''false'')"
| "to_string (JNum text) = Inr text"
| "to_string (JStr s) = Inr s"
| "to_string (JArr xs) =
     (case join_elements xs of Inl e \<Rightarrow> Inl e | Inr ss \<Rightarrow> Inr (intercalate '','' ss))"
| "to_string (JObj props) =
     (if map_of props ''toString'' = None then Inr ''[object Object]''
      else Inl (TypeError ''Cannot convert object to primitive value''))"
| "join_elements [] = Inr []"
| "join_elements (x # xs) =
     (case (if x = JUndefined \<or> x = JNull then Inr [] else to_string x) of
        Inl e \<Rightarrow> Inl e
      | Inr s \<Rightarrow> (case join_elements xs of Inl e \<Rightarrow> Inl e | Inr ss \<Rightarrow> Inr (s # ss)))"

text \<open>
  \<open>for (const item of items)\<close>: arrays and strings are iterable (a string yields its
  code points, each as a string); nothing else that a JSON body can hold is.
\<close>

fun iterate :: "json \<Rightarrow> js_error + json list" where
  "iterate (JArr xs) = Inr xs"
| "iterate (JStr s) = Inr (map (\<lambda>c. JStr [c]) s)"
| "iterate v = Inl (TypeError ''items is not iterable'')"

subsection \<open>The outside world\<close>

text \<open>
  \<open>USER_SERVICE_URL\<close> and \<open>INVENTORY_SERVICE_URL\<close> come from the process environment,
  with a default when the variable is unset or empty.
\<close>

record config =
  USER_SERVICE_URL :: string
  INVENTORY_SERVICE_URL :: string

definition env_or :: "string option \<Rightarrow> string \<Rightarrow> string" where
  "env_or v d = (case v of None \<Rightarrow> d | Some s \<Rightarrow> if s = [] then d else s)"

definition load_config :: "(string \<Rightarrow> string option) \<Rightarrow> config" where
  "load_config process_env =
     \<lparr> USER_SERVICE_URL = env_or (process_env ''USER_SERVICE_URL'') ''http://user-service:5000'',
       INVENTORY_SERVICE_URL =
         env_or (process_env ''INVENTORY_SERVICE_URL'') ''http://inventory-service:8080'' \<rparr>"

text \<open>
  One \<open>await axios.get(url)\<close> either resolves (the response is not looked at) or rejects
  with an error, of which the handler reads the message. The behaviour of the two remote
  services during one request is a function from the number of the call within the
  request (from 0) and its URL to the outcome, so that the same URL may be answered
  differently by a later call.
\<close>

datatype outcome = Resolved | Rejected string

type_synonym axios = "nat \<Rightarrow> string \<Rightarrow> outcome"

text \<open>\<open>`${USER_SERVICE_URL}/api/v1/users/${userId}`\<close>\<close>

definition user_url :: "config \<Rightarrow> json \<Rightarrow> js_error + string" where
  "user_url cfg userId =
     (case to_string userId of
        Inl e \<Rightarrow> Inl e
      | Inr s \<Rightarrow> Inr (USER_SERVICE_URL cfg @ ''/api/v1/users/'' @ s))"

text \<open>\<open>`${INVENTORY_SERVICE_URL}/api/v1/inventory/${item.productId}`\<close>\<close>

definition inventory_url :: "config \<Rightarrow> json \<Rightarrow> js_error + string" where
  "inventory_url cfg item =
     (case get_field ''productId'' item of
        Inl e \<Rightarrow> Inl e
      | Inr p \<Rightarrow>
          (case to_string p of
             Inl e \<Rightarrow> Inl e
           | Inr s \<Rightarrow> Inr (INVENTORY_SERVICE_URL cfg @ ''/api/v1/inventory/'' @ s)))"

subsection \<open>Orders and the store\<close>

text \<open>
  The object literal \<open>{ id: orderId, userId, items, status: 'pending' }\<close>. The field
  \<open>id\<close> is written \<open>id'\<close>, since \<open>id\<close> is the identity function of HOL.
\<close>

record order =
  id' :: string
  userId :: json
  items :: json
  status :: string

text \<open>
  \<open>const orders = {}\<close>: the own properties in the order of their creation, on top of
  what \<open>Object.prototype\<close> provides.
\<close>

type_synonym store = "(string \<times> order) list"

text \<open>What \<open>orders[key]\<close> evaluates to.\<close>

datatype property = Undefined | Own order | Inherited string

definition get_property :: "store \<Rightarrow> string \<Rightarrow> property" where
  "get_property orders key =
     (case map_of orders key of
        Some ord \<Rightarrow> Own ord
      | None \<Rightarrow> if key \<in> set Object_prototype_names then Inherited key else Undefined)"

fun truthy :: "property \<Rightarrow> bool" where
  "truthy Undefined = False"
| "truthy (Own ord) = True"
| "truthy (Inherited name) = True"

text \<open>
  \<open>Date.now().toString()\<close>: a time value is an integer number of milliseconds, of a
  magnitude that the conversion writes out in full, as a decimal numeral (\<open>digits\<close> is
  for the numbers from 0 on).
\<close>

function digits :: "int \<Rightarrow> string" where
  "digits i =
     (if i < 10 then [''0123456789'' ! nat i]
      else digits (i div 10) @ [''0123456789'' ! nat (i mod 10)])"
  by pat_completeness auto
termination
  by (relation "measure nat") auto

declare digits.simps [simp del]

definition string_of_int :: "int \<Rightarrow> string" where
  "string_of_int i = (if i < 0 then CHR ''-'' # digits (- i) else digits i)"

text \<open>
  \<open>orders[orderId] = order\<close> for a key that is a decimal numeral: the value of an
  existing own property is replaced where it stands, a new property goes last.
\<close>

definition set_property :: "store \<Rightarrow> string \<Rightarrow> order \<Rightarrow> store" where
  "set_property orders key ord = AList.update key ord orders"

text \<open>
  \<open>Object.values(orders)\<close>: the values in property order, which puts the keys that are
  array indices (canonical numerals below \<open>2^32 - 1\<close>) first, in ascending order, and the
  other keys after them in the order of their creation.
\<close>

fun digit_value :: "char \<Rightarrow> int option" where
  "digit_value c =
     (let n = (of_char c :: int) in if 48 \<le> n \<and> n \<le> 57 then Some (n - 48) else None)"

fun parse_digits :: "int \<Rightarrow> string \<Rightarrow> int option" where
  "parse_digits acc [] = Some acc"
| "parse_digits acc (c # cs) =
     (case digit_value c of None \<Rightarrow> None | Some d \<Rightarrow> parse_digits (10 * acc + d) cs)"

definition array_index :: "string \<Rightarrow> int option" where
  "array_index key =
     (if key = [] then None
      else case parse_digits 0 key of
             None \<Rightarrow> None
           | Some n \<Rightarrow> if n < 4294967295 \<and> digits n = key then Some n else None)"

definition Object_values :: "store \<Rightarrow> order list" where
  "Object_values orders =
     map snd (sort_key (\<lambda>(key, ord). the (array_index key))
                 (filter (\<lambda>(key, ord). array_index key \<noteq> None) orders))
     @ map snd (filter (\<lambda>(key, ord). array_index key = None) orders)"

subsection \<open>The routes\<close>

text \<open>
  An answer is a status and the value handed to \<open>res.json\<close>, before it is serialised:
  the health report, \<open>{ orders: [...] }\<close>, an order, \<open>{ error: message }\<close>, or what the
  lookup in \<open>orders\<close> found instead of an order.
\<close>

datatype body =
    Health
  | Orders "order list"
  | Order order
  | Prototype string
  | NoBody
  | Error string

datatype response = Response nat body

text \<open>\<open>app.get('/health', ...)\<close>\<close>

definition get_health :: "store \<Rightarrow> response \<times> store" where
  "get_health orders = (Response 200 Health, orders)"

text \<open>\<open>app.get('/api/v1/orders', ...)\<close>\<close>

definition get_orders :: "store \<Rightarrow> response \<times> store" where
  "get_orders orders = (Response 200 (Orders (Object_values orders)), orders)"

text \<open>
  \<open>res.json(order)\<close> in the route below: an order is sent as it is. An inherited
  property (a function, or \<open>Object.prototype\<close> itself under \<open>__proto__\<close>) is sent as
  what \<open>JSON.stringify\<close> makes of it, which \<open>Prototype name\<close> stands for.
\<close>

fun res_json :: "property \<Rightarrow> body" where
  "res_json (Own ord) = Order ord"
| "res_json (Inherited name) = Prototype name"
| "res_json Undefined = NoBody"

text \<open>
  \<open>app.get('/api/v1/orders/:id', ...)\<close>. The test \<open>if (order)\<close> is the truthiness of
  whatever \<open>orders[req.params.id]\<close> evaluates to.
\<close>

definition get_order :: "store \<Rightarrow> string \<Rightarrow> response \<times> store" where
  "get_order orders req_id =
     (let ord = get_property orders req_id in
      if truthy ord then (Response 200 (res_json ord), orders)
      else (Response 404 (Error ''Order not found''), orders))"

text \<open>
  The loop \<open>for (const item of items) { await axios.get(...) }\<close>, from call number \<open>k\<close>
  on. It returns the URLs it has requested, in order, and how it ended: normally, or by
  the first error thrown (building a URL, or a rejected call), which ends the loop.
\<close>

fun check_inventory :: "config \<Rightarrow> axios \<Rightarrow> nat \<Rightarrow> json list \<Rightarrow> string list \<times> (js_error + unit)" where
  "check_inventory cfg ax k [] = ([], Inr ())"
| "check_inventory cfg ax k (item # rest) =
     (case inventory_url cfg item of
        Inl e \<Rightarrow> ([], Inl e)
      | Inr url \<Rightarrow>
          (case ax k url of
             Rejected m \<Rightarrow> ([url], Inl (AxiosError m))
           | Resolved \<Rightarrow>
               (let (calls, r) = check_inventory cfg ax (Suc k) rest in (url # calls, r))))"

text \<open>
  The \<open>try\<close> block up to the last await: destructuring, the user check, the inventory
  checks. It returns the URLs requested and either the error thrown or the \<open>userId\<close> and
  \<open>items\<close> that the rest of the block uses.
\<close>

definition validate :: "config \<Rightarrow> axios \<Rightarrow> json \<Rightarrow> string list \<times> (js_error + json \<times> json)" where
  "validate cfg ax req_body =
     (case destructure req_body of
        Inl e \<Rightarrow> ([], Inl e)
      | Inr (u, its) \<Rightarrow>
          (case user_url cfg u of
             Inl e \<Rightarrow> ([], Inl e)
           | Inr url \<Rightarrow>
               (case ax 0 url of
                  Rejected m \<Rightarrow> ([url], Inl (AxiosError m))
                | Resolved \<Rightarrow>
                    (case iterate its of
                       Inl e \<Rightarrow> ([url], Inl e)
                     | Inr xs \<Rightarrow>
                         (case check_inventory cfg ax 1 xs of
                            (calls, Inl e) \<Rightarrow> (url # calls, Inl e)
                          | (calls, Inr _) \<Rightarrow> (url # calls, Inr (u, its)))))))"

text \<open>
  \<open>app.post('/api/v1/orders', ...)\<close>, given the behaviour of the remote services during
  the request and the value \<open>now\<close> that \<open>Date.now()\<close> returns when the handler reaches it.
  The result is the answer, the URLs requested in order, and the store afterwards.
\<close>

definition post_orders ::
    "config \<Rightarrow> axios \<Rightarrow> int \<Rightarrow> store \<Rightarrow> json \<Rightarrow> response \<times> string list \<times> store" where
  "post_orders cfg ax now orders req_body =
     (case validate cfg ax req_body of
        (calls, Inl error) \<Rightarrow> (Response 400 (Error (message error)), calls, orders)
      | (calls, Inr (u, its)) \<Rightarrow>
          (let orderId = string_of_int now;
               ord = \<lparr> id' = orderId, userId = u, items = its, status = ''pending'' \<rparr>
           in (Response 201 (Order ord), calls, set_property orders orderId ord)))"

subsection \<open>The service as a machine\<close>

text \<open>
  A request as the store sees it: the route with its input and, for a creation, what the
  outside world does during it.
\<close>

datatype request =
    GetHealth
  | GetOrders
  | GetOrder string
  | PostOrders json axios int

fun handle :: "config \<Rightarrow> store \<Rightarrow> request \<Rightarrow> response \<times> store" where
  "handle cfg orders GetHealth = get_health orders"
| "handle cfg orders GetOrders = get_orders orders"
| "handle cfg orders (GetOrder req_id) = get_order orders req_id"
| "handle cfg orders (PostOrders req_body ax now) =
     (case post_orders cfg ax now orders req_body of (res, calls, orders') \<Rightarrow> (res, orders'))"

text \<open>Serving a sequence of requests: the answers in order, and the final store.\<close>

fun serve :: "config \<Rightarrow> store \<Rightarrow> request list \<Rightarrow> response list \<times> store" where
  "serve cfg orders [] = ([], orders)"
| "serve cfg orders (r # rs) =
     (case handle cfg orders r of
        (res, orders') \<Rightarrow> (case serve cfg orders' rs of (ress, orders'') \<Rightarrow> (res # ress, orders'')))"

subsection \<open>The vocabulary of the properties\<close>

text \<open>
  The user existence check of a creation request: the outcome of call 0, when its URL
  can be built (\<open>None\<close> when building it throws, and no call is made).
\<close>

definition user_check :: "config \<Rightarrow> axios \<Rightarrow> json \<Rightarrow> outcome option" where
  "user_check cfg ax u =
     (case user_url cfg u of Inl e \<Rightarrow> None | Inr url \<Rightarrow> Some (ax 0 url))"

text \<open>
  The product existence check for the item at position \<open>k\<close> (from 0) of the iterated
  items: the outcome of call \<open>k + 1\<close>, when its URL can be built.
\<close>

definition product_check :: "config \<Rightarrow> axios \<Rightarrow> json list \<Rightarrow> nat \<Rightarrow> outcome option" where
  "product_check cfg ax xs k =
     (case inventory_url cfg (xs ! k) of Inl e \<Rightarrow> None | Inr url \<Rightarrow> Some (ax (Suc k) url))"

definition iterable :: "json \<Rightarrow> bool" where
  "iterable v = (case iterate v of Inl e \<Rightarrow> False | Inr xs \<Rightarrow> True)"

text \<open>
  What holds of every stored order in a store that creations have built: it is stored
  under its own id and is pending.
\<close>

definition pending_orders :: "store \<Rightarrow> bool" where
  "pending_orders orders = list_all (\<lambda>(key, ord). id' ord = key \<and> status ord = ''pending'') orders"

text \<open>A request that is a creation reading the clock value \<open>t\<close>.\<close>

fun reads_clock :: "int \<Rightarrow> request \<Rightarrow> bool" where
  "reads_clock t (PostOrders req_body ax now) = (now = t)"
| "reads_clock t r = False"

text \<open>The default configuration, and the request of the scenario in the specification.\<close>

definition default_config :: config where
  "default_config = load_config (\<lambda>name. None)"

definition all_resolved :: axios where
  "all_resolved = (\<lambda>k url. Resolved)"

definition scenario_body :: json where
  "scenario_body =
     JObj [(''userId'', JStr ''user-123''),
           (''items'', JArr [JObj [(''productId'', JStr ''prod-1''), (''quantity'', JNum ''2'')]])]"

text \<open>A second request, from another user and without items.\<close>

definition other_body :: json where
  "other_body = JObj [(''userId'', JStr ''user-456''), (''items'', JArr [])]"

text \<open>A request with several items, as in the test \<open>should handle multiple items\<close>.\<close>

definition multiple_items_body :: json where
  "multiple_items_body =
     JObj [(''userId'', JStr ''user-1''),
           (''items'', JArr [JObj [(''productId'', JStr ''prod-1''), (''quantity'', JNum ''2'')],
                            JObj [(''productId'', JStr ''prod-2''), (''quantity'', JNum ''1'')],
                            JObj [(''productId'', JStr ''prod-3''), (''quantity'', JNum ''4'')]])]"

text \<open>A request without an \<open>items\<close> field.\<close>

definition no_items_body :: json where
  "no_items_body = JObj [(''userId'', JStr ''user-123'')]"

text \<open>
  The orders that the handler makes of \<open>other_body\<close> and of \<open>scenario_body\<close> when
  \<open>Date.now()\<close> returns 1700000000000 for each.
\<close>

definition other_order :: order where
  "other_order =
     \<lparr> id' = ''1700000000000'', userId = JStr ''user-456'', items = JArr [], status = ''pending'' \<rparr>"

definition scenario_order :: order where
  "scenario_order =
     \<lparr> id' = ''1700000000000'', userId = JStr ''user-123'',
       items = JArr [JObj [(''productId'', JStr ''prod-1''), (''quantity'', JNum ''2'')]],
       status = ''pending'' \<rparr>"

section \<open>Properties\<close>

subsection \<open>The inventory loop\<close>

lemma check_inventory_all_resolved:
  assumes "\<forall>k<length xs. \<exists>url. inventory_url cfg (xs ! k) = Inr url \<and> ax (k0 + k) url = Resolved"
  shows "\<exists>calls. check_inventory cfg ax k0 xs = (calls, Inr ()) \<and> length calls = length xs \<and>
           (\<forall>k<length xs. inventory_url cfg (xs ! k) = Inr (calls ! k))"
  using assms
proof (induction xs arbitrary: k0)
  case Nil
  then show ?case by simp
next
  case (Cons x xs)
  from Cons.prems [rule_format, of 0]
  obtain url where url: "inventory_url cfg x = Inr url" "ax k0 url = Resolved"
    by auto
  have "\<forall>k<length xs. \<exists>url. inventory_url cfg (xs ! k) = Inr url \<and> ax (Suc k0 + k) url = Resolved"
  proof (intro allI impI)
    fix k assume "k < length xs"
    with Cons.prems [rule_format, of "Suc k"] show
      "\<exists>url. inventory_url cfg (xs ! k) = Inr url \<and> ax (Suc k0 + k) url = Resolved"
      by simp
  qed
  from Cons.IH [OF this]
  obtain calls where calls: "check_inventory cfg ax (Suc k0) xs = (calls, Inr ())"
      "length calls = length xs"
      "\<forall>k<length xs. inventory_url cfg (xs ! k) = Inr (calls ! k)"
    by blast
  have "check_inventory cfg ax k0 (x # xs) = (url # calls, Inr ())"
    using url calls(1) by simp
  moreover have "length (url # calls) = length (x # xs)"
    using calls(2) by simp
  moreover have "\<forall>k<length (x # xs). inventory_url cfg ((x # xs) ! k) = Inr ((url # calls) ! k)"
  proof (intro allI impI)
    fix k assume "k < length (x # xs)"
    then show "inventory_url cfg ((x # xs) ! k) = Inr ((url # calls) ! k)"
      using url(1) calls(3) by (cases k) auto
  qed
  ultimately show ?case by blast
qed

lemma check_inventory_first_rejected:
  assumes "j < length xs"
    and "\<forall>k<j. \<exists>url. inventory_url cfg (xs ! k) = Inr url \<and> ax (k0 + k) url = Resolved"
    and "inventory_url cfg (xs ! j) = Inr urlj"
    and "ax (k0 + j) urlj = Rejected m"
  shows "\<exists>calls. check_inventory cfg ax k0 xs = (calls, Inl (AxiosError m)) \<and>
           length calls = Suc j \<and> (\<forall>k\<le>j. inventory_url cfg (xs ! k) = Inr (calls ! k))"
  using assms
proof (induction xs arbitrary: k0 j)
  case Nil
  then show ?case by simp
next
  case (Cons x xs)
  show ?case
  proof (cases j)
    case 0
    with Cons.prems have "check_inventory cfg ax k0 (x # xs) = ([urlj], Inl (AxiosError m))"
      by simp
    moreover have "\<forall>k\<le>j. inventory_url cfg ((x # xs) ! k) = Inr ([urlj] ! k)"
      using 0 Cons.prems(3) by simp
    ultimately show ?thesis using 0 by simp
  next
    case (Suc i)
    from Cons.prems(2) [rule_format, of 0] Suc
    obtain url where url: "inventory_url cfg x = Inr url" "ax k0 url = Resolved"
      by auto
    have i: "i < length xs" using Cons.prems(1) Suc by simp
    have before: "\<forall>k<i. \<exists>url. inventory_url cfg (xs ! k) = Inr url \<and> ax (Suc k0 + k) url = Resolved"
    proof (intro allI impI)
      fix k assume "k < i"
      with Cons.prems(2) [rule_format, of "Suc k"] Suc show
        "\<exists>url. inventory_url cfg (xs ! k) = Inr url \<and> ax (Suc k0 + k) url = Resolved"
        by simp
    qed
    have at: "inventory_url cfg (xs ! i) = Inr urlj" "ax (Suc k0 + i) urlj = Rejected m"
      using Cons.prems(3,4) Suc by simp_all
    from Cons.IH [OF i before at]
    obtain calls where calls: "check_inventory cfg ax (Suc k0) xs = (calls, Inl (AxiosError m))"
        "length calls = Suc i"
        "\<forall>k\<le>i. inventory_url cfg (xs ! k) = Inr (calls ! k)"
      by blast
    have "check_inventory cfg ax k0 (x # xs) = (url # calls, Inl (AxiosError m))"
      using url calls(1) by simp
    moreover have "length (url # calls) = Suc j"
      using calls(2) Suc by simp
    moreover have "\<forall>k\<le>j. inventory_url cfg ((x # xs) ! k) = Inr ((url # calls) ! k)"
    proof (intro allI impI)
      fix k assume "k \<le> j"
      then show "inventory_url cfg ((x # xs) ! k) = Inr ((url # calls) ! k)"
        using url(1) calls(3) Suc by (cases k) auto
    qed
    ultimately show ?thesis by blast
  qed
qed

subsection \<open>Validation\<close>

lemma user_check_SomeD:
  "user_check cfg ax u = Some r \<Longrightarrow> \<exists>url. user_url cfg u = Inr url \<and> ax 0 url = r"
  by (cases "user_url cfg u") (simp_all add: user_check_def)

lemma product_check_SomeD:
  "product_check cfg ax xs k = Some r \<Longrightarrow>
     \<exists>url. inventory_url cfg (xs ! k) = Inr url \<and> ax (Suc k) url = r"
  by (cases "inventory_url cfg (xs ! k)") (simp_all add: product_check_def)

lemma validate_accepts:
  assumes body: "destructure req_body = Inr (u, its)"
    and its: "iterate its = Inr xs"
    and user: "user_check cfg ax u = Some Resolved"
    and products: "\<forall>k<length xs. product_check cfg ax xs k = Some Resolved"
  shows "\<exists>calls. validate cfg ax req_body = (calls, Inr (u, its)) \<and>
           length calls = Suc (length xs) \<and> user_url cfg u = Inr (calls ! 0) \<and>
           (\<forall>k<length xs. inventory_url cfg (xs ! k) = Inr (calls ! Suc k))"
proof -
  from user_check_SomeD [OF user]
  obtain url where url: "user_url cfg u = Inr url" "ax 0 url = Resolved"
    by blast
  have "\<forall>k<length xs. \<exists>url. inventory_url cfg (xs ! k) = Inr url \<and> ax (1 + k) url = Resolved"
    using products product_check_SomeD [of cfg ax xs] by simp
  from check_inventory_all_resolved [OF this]
  obtain calls where calls: "check_inventory cfg ax 1 xs = (calls, Inr ())"
      "length calls = length xs"
      "\<forall>k<length xs. inventory_url cfg (xs ! k) = Inr (calls ! k)"
    by blast
  have "validate cfg ax req_body = (url # calls, Inr (u, its))"
    using body its url calls(1) by (simp add: validate_def)
  then show ?thesis
    using url(1) calls(2,3) by simp
qed

lemma validate_user_rejected:
  assumes body: "destructure req_body = Inr (u, its)"
    and user: "user_check cfg ax u = Some (Rejected m)"
  shows "\<exists>url. user_url cfg u = Inr url \<and>
           validate cfg ax req_body = ([url], Inl (AxiosError m))"
proof -
  from user_check_SomeD [OF user]
  obtain url where url: "user_url cfg u = Inr url" "ax 0 url = Rejected m"
    by blast
  then show ?thesis
    using body by (simp add: validate_def)
qed

lemma validate_product_rejected:
  assumes body: "destructure req_body = Inr (u, its)"
    and its: "iterate its = Inr xs"
    and user: "user_check cfg ax u = Some Resolved"
    and j: "j < length xs"
    and before: "\<forall>k<j. product_check cfg ax xs k = Some Resolved"
    and at: "product_check cfg ax xs j = Some (Rejected m)"
  shows "\<exists>calls. validate cfg ax req_body = (calls, Inl (AxiosError m)) \<and>
           length calls = Suc (Suc j) \<and> user_url cfg u = Inr (calls ! 0) \<and>
           (\<forall>k\<le>j. inventory_url cfg (xs ! k) = Inr (calls ! Suc k))"
proof -
  from user_check_SomeD [OF user]
  obtain url where url: "user_url cfg u = Inr url" "ax 0 url = Resolved"
    by blast
  have before': "\<forall>k<j. \<exists>url. inventory_url cfg (xs ! k) = Inr url \<and> ax (1 + k) url = Resolved"
    using before product_check_SomeD [of cfg ax xs] by simp
  from product_check_SomeD [OF at]
  obtain urlj where urlj: "inventory_url cfg (xs ! j) = Inr urlj" "ax (1 + j) urlj = Rejected m"
    by auto
  from check_inventory_first_rejected [OF j before' urlj]
  obtain calls where calls: "check_inventory cfg ax 1 xs = (calls, Inl (AxiosError m))"
      "length calls = Suc j"
      "\<forall>k\<le>j. inventory_url cfg (xs ! k) = Inr (calls ! k)"
    by blast
  have "validate cfg ax req_body = (url # calls, Inl (AxiosError m))"
    using body its url calls(1) by (simp add: validate_def)
  then show ?thesis
    using url(1) calls(2,3) by simp
qed

text \<open>When \<open>items\<close> cannot be iterated, the \<open>try\<close> block throws before it asks for a product.\<close>

lemma validate_not_iterable:
  assumes "\<forall>u its. destructure req_body = Inr (u, its) \<longrightarrow> \<not> iterable its"
  shows "\<exists>e calls. validate cfg ax req_body = (calls, Inl e) \<and> length calls \<le> 1"
proof (cases "destructure req_body")
  case (Inl e)
  then show ?thesis by (simp add: validate_def)
next
  case (Inr p)
  obtain u its where p: "p = (u, its)" by (cases p)
  with Inr assms have "\<not> iterable its" by simp
  then obtain e where "iterate its = Inl e"
    by (auto simp: iterable_def split: sum.splits)
  then show ?thesis
    using Inr p by (auto simp: validate_def split: sum.splits outcome.splits)
qed

subsection \<open>The store\<close>

lemma get_property_set_property:
  "get_property (set_property orders key ord) key = Own ord"
  by (simp add: get_property_def set_property_def update_conv')

lemma get_property_set_property_other:
  "key' \<noteq> key \<Longrightarrow> get_property (set_property orders key ord) key' = get_property orders key'"
  by (simp add: get_property_def set_property_def update_conv')

text \<open>
  What \<open>get\<close> answers: the stored order; 404 for a key that is neither stored nor a name
  of \<open>Object.prototype\<close>; and a 200 for such a name.
\<close>

lemma get_order_stored:
  "map_of orders req_id = Some ord \<Longrightarrow> get_order orders req_id = (Response 200 (Order ord), orders)"
  by (simp add: get_order_def get_property_def)

lemma get_order_not_found:
  "map_of orders req_id = None \<Longrightarrow> req_id \<notin> set Object_prototype_names \<Longrightarrow>
     get_order orders req_id = (Response 404 (Error ''Order not found''), orders)"
  by (simp add: get_order_def get_property_def)

lemma get_order_inherited:
  "map_of orders req_id = None \<Longrightarrow> req_id \<in> set Object_prototype_names \<Longrightarrow>
     get_order orders req_id = (Response 200 (Prototype req_id), orders)"
  by (simp add: get_order_def get_property_def)

lemma not_iterable_error:
  "\<not> iterable v \<Longrightarrow> iterate v = Inl (TypeError ''items is not iterable'')"
  by (cases v) (simp_all add: iterable_def)

text \<open>The retrieval routes and the health route leave the store as it is.\<close>

lemma reads_keep_store:
  "snd (get_health orders) = orders"
  "snd (get_orders orders) = orders"
  "snd (get_order orders req_id) = orders"
  by (simp_all add: get_health_def get_orders_def get_order_def Let_def)

text \<open>
  The key under which a creation stores is a decimal numeral, so it is never a name that
  \<open>Object.prototype\<close> provides, and the assignment always makes or replaces an own
  property.
\<close>

lemma digits_chars: "set (digits i) \<subseteq> set ''0123456789''"
proof (induction i rule: digits.induct)
  case (1 i)
  show ?case
  proof (cases "i < 10")
    case True
    have "nat i < 10" using True by simp
    then have "''0123456789'' ! nat i \<in> set ''0123456789''"
      by (intro nth_mem) simp
    then show ?thesis
      using True by (subst digits.simps) simp
  next
    case False
    have "nat (i mod 10) < 10" by simp
    then have "''0123456789'' ! nat (i mod 10) \<in> set ''0123456789''"
      by (intro nth_mem) simp
    then show ?thesis
      using False "1.IH" by (subst digits.simps) simp
  qed
qed

lemma string_of_int_chars:
  assumes "c \<in> set (string_of_int i)"
  shows "c = CHR ''-'' \<or> c \<in> set ''0123456789''"
proof (cases "i < 0")
  case True
  with assms have "c = CHR ''-'' \<or> c \<in> set (digits (- i))"
    by (simp add: string_of_int_def)
  then show ?thesis
    using digits_chars [of "- i"] by blast
next
  case False
  with assms have "c \<in> set (digits i)"
    by (simp add: string_of_int_def)
  then show ?thesis
    using digits_chars [of i] by blast
qed

lemma inherited_name_has_letter:
  assumes "name \<in> set Object_prototype_names"
  shows "\<exists>c \<in> set name. c \<noteq> CHR ''-'' \<and> c \<notin> set ''0123456789''"
proof -
  have "list_all (\<lambda>name. \<exists>c \<in> set name. c \<noteq> CHR ''-'' \<and> c \<notin> set ''0123456789'')
          Object_prototype_names"
    unfolding Object_prototype_names_def by simp
  with assms show ?thesis
    by (simp add: list_all_iff)
qed

lemma string_of_int_not_inherited: "string_of_int i \<notin> set Object_prototype_names"
  using inherited_name_has_letter [of "string_of_int i"] string_of_int_chars [of _ i]
  by blast

subsection \<open>Creation\<close>

lemma post_orders_accepts:
  assumes "destructure req_body = Inr (u, its)"
    and "iterate its = Inr xs"
    and "user_check cfg ax u = Some Resolved"
    and "\<forall>k<length xs. product_check cfg ax xs k = Some Resolved"
  shows "\<exists>calls. post_orders cfg ax now orders req_body =
           (Response 201 (Order \<lparr>id' = string_of_int now, userId = u, items = its, status = ''pending''\<rparr>),
            calls,
            set_property orders (string_of_int now)
              \<lparr>id' = string_of_int now, userId = u, items = its, status = ''pending''\<rparr>) \<and>
           length calls = Suc (length xs) \<and> user_url cfg u = Inr (calls ! 0) \<and>
           (\<forall>k<length xs. inventory_url cfg (xs ! k) = Inr (calls ! Suc k))"
proof -
  from validate_accepts [OF assms]
  obtain calls where calls: "validate cfg ax req_body = (calls, Inr (u, its))"
      "length calls = Suc (length xs)" "user_url cfg u = Inr (calls ! 0)"
      "\<forall>k<length xs. inventory_url cfg (xs ! k) = Inr (calls ! Suc k)"
    by blast
  have "post_orders cfg ax now orders req_body =
           (Response 201 (Order \<lparr>id' = string_of_int now, userId = u, items = its, status = ''pending''\<rparr>),
            calls,
            set_property orders (string_of_int now)
              \<lparr>id' = string_of_int now, userId = u, items = its, status = ''pending''\<rparr>)"
    using calls(1) by (simp add: post_orders_def Let_def)
  with calls(2,3,4) show ?thesis by blast
qed

text \<open>
  A string is iterable: with \<open>items = "ab"\<close> the loop asks for the product \<open>undefined\<close>
  once per character, and the order is created when these calls resolve.
\<close>

lemma string_items_iterated:
  "post_orders default_config all_resolved 1700000000000 []
     (JObj [(''userId'', JStr ''user-123''), (''items'', JStr ''ab'')]) =
     (Response 201 (Order \<lparr>id' = ''1700000000000'', userId = JStr ''user-123'',
                             items = JStr ''ab'', status = ''pending''\<rparr>),
      [''http://user-service:5000/api/v1/users/user-123'',
       ''http://inventory-service:8080/api/v1/inventory/undefined'',
       ''http://inventory-service:8080/api/v1/inventory/undefined''],
      [(''1700000000000'', \<lparr>id' = ''1700000000000'', userId = JStr ''user-123'',
                             items = JStr ''ab'', status = ''pending''\<rparr>)])"
  by code_simp

text \<open>A creation either answers 201 and stores the order it answers with, or answers 400
  and leaves the store as it is.\<close>

lemma post_orders_cases:
  assumes "post_orders cfg ax now orders req_body = (res, calls, orders')"
  shows "(\<exists>ord. res = Response 201 (Order ord) \<and> id' ord = string_of_int now \<and>
            status ord = ''pending'' \<and> orders' = set_property orders (id' ord) ord)
         \<or> (\<exists>m. res = Response 400 (Error m) \<and> orders' = orders)"
  using assms
  by (auto simp: post_orders_def Let_def split: prod.splits sum.splits)

subsection \<open>Identifiers\<close>

text \<open>Parsing the digits of a number gives the number back.\<close>

lemma digit_value_nth:
  assumes "0 \<le> d" and "d < 10"
  shows "digit_value (''0123456789'' ! nat d) = Some d"
proof -
  from assms have "d = 0 \<or> d = 1 \<or> d = 2 \<or> d = 3 \<or> d = 4 \<or> d = 5 \<or> d = 6 \<or> d = 7 \<or> d = 8 \<or> d = 9"
    by arith
  then show ?thesis
    by (elim disjE) simp_all
qed

lemma parse_digits_snoc:
  "parse_digits acc (cs @ [c]) =
     (case parse_digits acc cs of
        None \<Rightarrow> None
      | Some n \<Rightarrow> (case digit_value c of None \<Rightarrow> None | Some d \<Rightarrow> Some (10 * n + d)))"
  by (induction cs arbitrary: acc) (simp_all del: digit_value.simps split: option.splits)

lemma parse_digits_digits: "0 \<le> i \<Longrightarrow> parse_digits 0 (digits i) = Some i"
proof (induction i rule: digits.induct)
  case (1 i)
  show ?case
  proof (cases "i < 10")
    case True
    with "1.prems" have "digit_value (''0123456789'' ! nat i) = Some i"
      by (simp only: digit_value_nth)
    with True show ?thesis
      by (subst digits.simps) (simp del: digit_value.simps)
  next
    case False
    with "1.prems" "1.IH" have "parse_digits 0 (digits (i div 10)) = Some (i div 10)"
      by simp
    moreover have "digit_value (''0123456789'' ! nat (i mod 10)) = Some (i mod 10)"
      by (rule digit_value_nth) simp_all
    ultimately show ?thesis
      using False by (subst digits.simps) (simp add: parse_digits_snoc del: digit_value.simps)
  qed
qed

lemma digits_inj:
  assumes "0 \<le> a" and "0 \<le> b" and "digits a = digits b"
  shows "a = b"
proof -
  have "Some a = parse_digits 0 (digits a)"
    using assms(1) by (simp only: parse_digits_digits)
  also have "\<dots> = parse_digits 0 (digits b)"
    by (simp only: assms(3))
  also have "\<dots> = Some b"
    using assms(2) by (simp only: parse_digits_digits)
  finally show ?thesis
    by simp
qed

lemma digits_no_minus: "CHR ''-'' \<notin> set (digits i)"
proof -
  have "CHR ''-'' \<notin> set ''0123456789''"
    by simp
  with digits_chars [of i] show ?thesis
    by blast
qed

text \<open>Different clock values give different ids.\<close>

lemma string_of_int_inj:
  assumes "string_of_int a = string_of_int b"
  shows "a = b"
proof -
  consider "a < 0" "b < 0" | "a < 0" "0 \<le> b" | "0 \<le> a" "b < 0" | "0 \<le> a" "0 \<le> b"
    by linarith
  then show ?thesis
  proof cases
    case 1
    with assms have "digits (- a) = digits (- b)"
      by (simp add: string_of_int_def)
    moreover from 1 have "0 \<le> - a" "0 \<le> - b"
      by simp_all
    ultimately have "- a = - b"
      by (simp only: digits_inj)
    then show ?thesis by simp
  next
    case 2
    with assms have "CHR ''-'' # digits (- a) = digits b"
      by (simp add: string_of_int_def)
    then have "CHR ''-'' \<in> set (digits b)"
      by (metis list.set_intros(1))
    with digits_no_minus show ?thesis by blast
  next
    case 3
    with assms have "digits a = CHR ''-'' # digits (- b)"
      by (simp add: string_of_int_def)
    then have "CHR ''-'' \<in> set (digits a)"
      by simp
    with digits_no_minus show ?thesis by blast
  next
    case 4
    with assms have "digits a = digits b"
      by (simp add: string_of_int_def)
    with 4 show ?thesis
      by (simp only: digits_inj)
  qed
qed

subsection \<open>What requests do to the store\<close>

lemma pending_orders_set_property:
  "pending_orders orders \<Longrightarrow> id' ord = key \<Longrightarrow> status ord = ''pending'' \<Longrightarrow>
     pending_orders (set_property orders key ord)"
  unfolding pending_orders_def set_property_def
  by (induction orders) auto

lemma handle_pending_orders:
  "pending_orders orders \<Longrightarrow> pending_orders (snd (handle cfg orders r))"
proof (cases r)
  case (PostOrders req_body ax now)
  obtain res calls orders' where p: "post_orders cfg ax now orders req_body = (res, calls, orders')"
    by (cases "post_orders cfg ax now orders req_body")
  assume "pending_orders orders"
  with post_orders_cases [OF p] have "pending_orders orders'"
    by (auto intro: pending_orders_set_property)
  with p PostOrders show ?thesis by simp
qed (simp_all add: reads_keep_store)

lemma serve_Cons_store:
  "snd (serve cfg orders (r # rs)) = snd (serve cfg (snd (handle cfg orders r)) rs)"
  by (simp split: prod.splits)

lemma serve_pending_orders:
  "pending_orders orders \<Longrightarrow> pending_orders (snd (serve cfg orders rs))"
proof (induction rs arbitrary: orders)
  case Nil
  then show ?case by simp
next
  case (Cons r rs)
  from Cons.prems have "pending_orders (snd (handle cfg orders r))"
    by (rule handle_pending_orders)
  from Cons.IH [OF this] show ?case
    by (simp only: serve_Cons_store)
qed

text \<open>
  A stored record stays as it is through every request that is not a creation reading
  the clock value of its key.
\<close>

lemma handle_keeps_record:
  assumes "map_of orders (string_of_int t) = Some ord" and "\<not> reads_clock t r"
  shows "map_of (snd (handle cfg orders r)) (string_of_int t) = Some ord"
proof (cases r)
  case (PostOrders req_body ax now)
  obtain res calls orders' where p: "post_orders cfg ax now orders req_body = (res, calls, orders')"
    by (cases "post_orders cfg ax now orders req_body")
  from assms(2) PostOrders have "string_of_int now \<noteq> string_of_int t"
    using string_of_int_inj [of now t] by auto
  with post_orders_cases [OF p] assms(1) have "map_of orders' (string_of_int t) = Some ord"
    by (auto simp: set_property_def update_conv')
  with p PostOrders show ?thesis by simp
qed (simp_all add: reads_keep_store assms(1))

lemma serve_keeps_record:
  assumes "map_of orders (string_of_int t) = Some ord" and "list_all (\<lambda>r. \<not> reads_clock t r) rs"
  shows "map_of (snd (serve cfg orders rs)) (string_of_int t) = Some ord"
  using assms
proof (induction rs arbitrary: orders)
  case Nil
  then show ?case by simp
next
  case (Cons r rs)
  from Cons.prems have "map_of (snd (handle cfg orders r)) (string_of_int t) = Some ord"
    by (simp add: handle_keeps_record)
  moreover from Cons.prems have "list_all (\<lambda>r. \<not> reads_clock t r) rs"
    by simp
  ultimately have "map_of (snd (serve cfg (snd (handle cfg orders r)) rs)) (string_of_int t) = Some ord"
    by (rule Cons.IH)
  then show ?case
    by (simp only: serve_Cons_store)
qed

text \<open>No request removes a key from the store.\<close>

lemma handle_keeps_keys:
  "map_of orders key \<noteq> None \<Longrightarrow> map_of (snd (handle cfg orders r)) key \<noteq> None"
proof (cases r)
  case (PostOrders req_body ax now)
  obtain res calls orders' where p: "post_orders cfg ax now orders req_body = (res, calls, orders')"
    by (cases "post_orders cfg ax now orders req_body")
  assume "map_of orders key \<noteq> None"
  with post_orders_cases [OF p] have "map_of orders' key \<noteq> None"
    by (auto simp: set_property_def update_conv')
  with p PostOrders show ?thesis by simp
qed (simp_all add: reads_keep_store)

section \<open>The claims\<close>

text \<open>
  C1. A creation whose checks all succeed returns a pending order with the caller's
  \<open>userId\<close> and \<open>items\<close> and a freshly allocated, unique id, and stores that record. The id
  is not fresh when the clock reads what it read for an earlier creation: on the store
  that holds \<open>other_order\<close>, created at 1700000000000, a creation at 1700000000000
  returns the id under which \<open>other_order\<close> is stored.
\<close>

theorem creation_id_in_use:
  "post_orders default_config all_resolved 1700000000000 [] other_body =
     (Response 201 (Order other_order),
      [''http://user-service:5000/api/v1/users/user-456''],
      [(''1700000000000'', other_order)]) \<and>
   post_orders default_config all_resolved 1700000000000 [(''1700000000000'', other_order)] scenario_body =
     (Response 201 (Order scenario_order),
      [''http://user-service:5000/api/v1/users/user-123'',
       ''http://inventory-service:8080/api/v1/inventory/prod-1''],
      [(''1700000000000'', scenario_order)]) \<and>
   get_property [(''1700000000000'', other_order)] (id' scenario_order) = Own other_order"
  by code_simp

text \<open>
  C2. The ids of distinct successful creates are distinct, and a create never overwrites a
  stored record with another request's data. Two creations that read the same clock value
  get the same id, and the second replaces the first one's record: the store ends with
  one order.
\<close>

theorem same_millisecond_creations_collide:
  "serve default_config []
     [PostOrders other_body all_resolved 1700000000000,
      PostOrders scenario_body all_resolved 1700000000000] =
     ([Response 201 (Order other_order), Response 201 (Order scenario_order)],
      [(''1700000000000'', scenario_order)]) \<and>
   id' other_order = id' scenario_order \<and>
   userId other_order \<noteq> userId scenario_order"
  by code_simp

text \<open>
  C3. For a creation request in which all existence checks succeed, the number of external
  existence-check calls is exactly \<open>1 + len(items)\<close>, and they occur in this order: the
  user check first, then the product check for item 1, item 2, \<dots>, item n in the order of
  the caller's list. (\<open>calls\<close> lists the URLs requested, in order; \<open>xs\<close> are the items
  the loop iterates.)
\<close>

theorem creation_checks_in_order:
  assumes "destructure req_body = Inr (u, its)"
    and "iterate its = Inr xs"
    and "user_check cfg ax u = Some Resolved"
    and "\<forall>k<length xs. product_check cfg ax xs k = Some Resolved"
  shows "\<exists>res calls orders'. post_orders cfg ax now orders req_body = (res, calls, orders') \<and>
           length calls = 1 + length xs \<and>
           user_url cfg u = Inr (calls ! 0) \<and>
           (\<forall>k<length xs. inventory_url cfg (xs ! k) = Inr (calls ! Suc k))"
  using post_orders_accepts [OF assms, of now orders] by auto

theorem creation_checks_in_order_witness:
  "destructure multiple_items_body =
     Inr (JStr ''user-1'',
          JArr [JObj [(''productId'', JStr ''prod-1''), (''quantity'', JNum ''2'')],
                JObj [(''productId'', JStr ''prod-2''), (''quantity'', JNum ''1'')],
                JObj [(''productId'', JStr ''prod-3''), (''quantity'', JNum ''4'')]]) \<and>
   user_check default_config all_resolved (JStr ''user-1'') = Some Resolved \<and>
   (\<exists>res calls orders'.
      post_orders default_config all_resolved 1700000000000 [] multiple_items_body = (res, calls, orders') \<and>
      length calls = 4 \<and>
      calls ! 0 = ''http://user-service:5000/api/v1/users/user-1'' \<and>
      calls ! 1 = ''http://inventory-service:8080/api/v1/inventory/prod-1'' \<and>
      calls ! 2 = ''http://inventory-service:8080/api/v1/inventory/prod-2'' \<and>
      calls ! 3 = ''http://inventory-service:8080/api/v1/inventory/prod-3'')"
proof -
  let ?xs = "[JObj [(''productId'', JStr ''prod-1''), (''quantity'', JNum ''2'')],
              JObj [(''productId'', JStr ''prod-2''), (''quantity'', JNum ''1'')],
              JObj [(''productId'', JStr ''prod-3''), (''quantity'', JNum ''4'')]]"
  have body: "destructure multiple_items_body = Inr (JStr ''user-1'', JArr ?xs)"
    by code_simp
  have its: "iterate (JArr ?xs) = Inr ?xs"
    by simp
  have user: "user_check default_config all_resolved (JStr ''user-1'') = Some Resolved"
    by code_simp
  have urls:
    "inventory_url default_config (JObj [(''productId'', JStr ''prod-1''), (''quantity'', JNum ''2'')])
       = Inr ''http://inventory-service:8080/api/v1/inventory/prod-1''"
    "inventory_url default_config (JObj [(''productId'', JStr ''prod-2''), (''quantity'', JNum ''1'')])
       = Inr ''http://inventory-service:8080/api/v1/inventory/prod-2''"
    "inventory_url default_config (JObj [(''productId'', JStr ''prod-3''), (''quantity'', JNum ''4'')])
       = Inr ''http://inventory-service:8080/api/v1/inventory/prod-3''"
    "user_url default_config (JStr ''user-1'') = Inr ''http://user-service:5000/api/v1/users/user-1''"
    by code_simp+
  have products: "\<forall>k<length ?xs. product_check default_config all_resolved ?xs k = Some Resolved"
    using urls by (simp add: All_less_Suc product_check_def all_resolved_def)
  from creation_checks_in_order [OF body its user products, of 1700000000000 "[]"]
  obtain res calls orders' where
    r: "post_orders default_config all_resolved 1700000000000 [] multiple_items_body = (res, calls, orders')"
       "length calls = 1 + length ?xs"
       "user_url default_config (JStr ''user-1'') = Inr (calls ! 0)"
       "\<forall>k<length ?xs. inventory_url default_config (?xs ! k) = Inr (calls ! Suc k)"
    by blast
  have "calls ! 1 = ''http://inventory-service:8080/api/v1/inventory/prod-1''"
    using r(4) [rule_format, of 0] urls by simp
  moreover have "calls ! 2 = ''http://inventory-service:8080/api/v1/inventory/prod-2''"
    using r(4) [rule_format, of 1] urls by (simp add: numeral_2_eq_2)
  moreover have "calls ! 3 = ''http://inventory-service:8080/api/v1/inventory/prod-3''"
    using r(4) [rule_format, of 2] urls by (simp add: numeral_3_eq_3)
  moreover have "calls ! 0 = ''http://user-service:5000/api/v1/users/user-1''"
    using r(3) urls by simp
  ultimately show ?thesis
    using r(1,2) body user by simp
qed

text \<open>
  C4. For a creation request whose user existence check fails, no product existence check
  is performed (the user URL is the only one requested), no order is stored (the store is
  unchanged), and the result is a 400 error whose message is exactly the failure text of
  the user check.
\<close>

theorem user_check_failure:
  assumes "destructure req_body = Inr (u, its)"
    and "user_check cfg ax u = Some (Rejected m)"
  shows "\<exists>url. user_url cfg u = Inr url \<and>
           post_orders cfg ax now orders req_body = (Response 400 (Error m), [url], orders)"
proof -
  from validate_user_rejected [OF assms]
  obtain url where "user_url cfg u = Inr url"
      "validate cfg ax req_body = ([url], Inl (AxiosError m))"
    by blast
  then show ?thesis
    by (simp add: post_orders_def)
qed

theorem user_check_failure_witness:
  "user_check default_config (\<lambda>k url. if k = 0 then Rejected ''User not found'' else Resolved)
     (JStr ''user-123'') = Some (Rejected ''User not found'') \<and>
   post_orders default_config (\<lambda>k url. if k = 0 then Rejected ''User not found'' else Resolved)
     1700000000000 [] scenario_body =
     (Response 400 (Error ''User not found''), [''http://user-service:5000/api/v1/users/user-123''], [])"
proof -
  let ?ax = "\<lambda>(k::nat) (url::string). if k = 0 then Rejected ''User not found'' else Resolved"
  have body: "destructure scenario_body =
      Inr (JStr ''user-123'', JArr [JObj [(''productId'', JStr ''prod-1''), (''quantity'', JNum ''2'')]])"
    by code_simp
  have url: "user_url default_config (JStr ''user-123'') = Inr ''http://user-service:5000/api/v1/users/user-123''"
    by code_simp
  then have user: "user_check default_config ?ax (JStr ''user-123'') = Some (Rejected ''User not found'')"
    by (simp add: user_check_def)
  from user_check_failure [OF body user, of 1700000000000 "[]"] url user show ?thesis
    by simp
qed

text \<open>
  C5. For a creation request where the product existence check for item \<open>k\<close> (1-indexed;
  position \<open>j = k - 1\<close> below) is the first check to fail, the checks for items \<open>k + 1\<close> to
  \<open>n\<close> are never performed (the URLs requested are the user's and those of items 1 to \<open>k\<close>),
  no order is stored, and the store is observably unchanged: get and list answer as before.
\<close>

theorem product_check_failure:
  assumes "destructure req_body = Inr (u, its)"
    and "iterate its = Inr xs"
    and "user_check cfg ax u = Some Resolved"
    and "j < length xs"
    and "\<forall>k<j. product_check cfg ax xs k = Some Resolved"
    and "product_check cfg ax xs j = Some (Rejected m)"
  shows "\<exists>calls orders'.
           post_orders cfg ax now orders req_body = (Response 400 (Error m), calls, orders') \<and>
           length calls = 1 + (j + 1) \<and>
           user_url cfg u = Inr (calls ! 0) \<and>
           (\<forall>k\<le>j. inventory_url cfg (xs ! k) = Inr (calls ! Suc k)) \<and>
           orders' = orders \<and>
           get_orders orders' = get_orders orders \<and>
           (\<forall>req_id. get_order orders' req_id = get_order orders req_id)"
proof -
  from validate_product_rejected [OF assms]
  obtain calls where calls: "validate cfg ax req_body = (calls, Inl (AxiosError m))"
      "length calls = Suc (Suc j)" "user_url cfg u = Inr (calls ! 0)"
      "\<forall>k\<le>j. inventory_url cfg (xs ! k) = Inr (calls ! Suc k)"
    by blast
  have "post_orders cfg ax now orders req_body = (Response 400 (Error m), calls, orders)"
    using calls(1) by (simp add: post_orders_def)
  with calls(2,3,4) show ?thesis
    by simp
qed

theorem product_check_failure_witness:
  "product_check default_config (\<lambda>k url. if k = 2 then Rejected ''Product not found'' else Resolved)
     [JObj [(''productId'', JStr ''prod-1''), (''quantity'', JNum ''2'')],
      JObj [(''productId'', JStr ''prod-2''), (''quantity'', JNum ''1'')],
      JObj [(''productId'', JStr ''prod-3''), (''quantity'', JNum ''4'')]] 1
     = Some (Rejected ''Product not found'') \<and>
   (\<exists>calls.
      post_orders default_config (\<lambda>k url. if k = 2 then Rejected ''Product not found'' else Resolved)
        1700000000000 [] multiple_items_body = (Response 400 (Error ''Product not found''), calls, []) \<and>
      length calls = 3 \<and>
      calls ! 0 = ''http://user-service:5000/api/v1/users/user-1'' \<and>
      calls ! 1 = ''http://inventory-service:8080/api/v1/inventory/prod-1'' \<and>
      calls ! 2 = ''http://inventory-service:8080/api/v1/inventory/prod-2'')"
proof -
  let ?ax = "\<lambda>(k::nat) (url::string). if k = 2 then Rejected ''Product not found'' else Resolved"
  let ?xs = "[JObj [(''productId'', JStr ''prod-1''), (''quantity'', JNum ''2'')],
              JObj [(''productId'', JStr ''prod-2''), (''quantity'', JNum ''1'')],
              JObj [(''productId'', JStr ''prod-3''), (''quantity'', JNum ''4'')]]"
  have body: "destructure multiple_items_body = Inr (JStr ''user-1'', JArr ?xs)"
    by code_simp
  have its: "iterate (JArr ?xs) = Inr ?xs"
    by simp
  have urls:
    "inventory_url default_config (JObj [(''productId'', JStr ''prod-1''), (''quantity'', JNum ''2'')])
       = Inr ''http://inventory-service:8080/api/v1/inventory/prod-1''"
    "inventory_url default_config (JObj [(''productId'', JStr ''prod-2''), (''quantity'', JNum ''1'')])
       = Inr ''http://inventory-service:8080/api/v1/inventory/prod-2''"
    "user_url default_config (JStr ''user-1'') = Inr ''http://user-service:5000/api/v1/users/user-1''"
    by code_simp+
  have user: "user_check default_config ?ax (JStr ''user-1'') = Some Resolved"
    using urls by (simp add: user_check_def)
  have j: "(1::nat) < length ?xs"
    by simp
  have before: "\<forall>k<(1::nat). product_check default_config ?ax ?xs k = Some Resolved"
    using urls by (simp add: product_check_def)
  have at: "product_check default_config ?ax ?xs 1 = Some (Rejected ''Product not found'')"
    using urls by (simp add: product_check_def)
  from product_check_failure [OF body its user j before at, of 1700000000000 "[]"]
  obtain calls where
    r: "post_orders default_config ?ax 1700000000000 [] multiple_items_body
          = (Response 400 (Error ''Product not found''), calls, [])"
       "length calls = 1 + (1 + 1)"
       "user_url default_config (JStr ''user-1'') = Inr (calls ! 0)"
       "\<forall>k\<le>1. inventory_url default_config (?xs ! k) = Inr (calls ! Suc k)"
    by auto
  have "calls ! 1 = ''http://inventory-service:8080/api/v1/inventory/prod-1''"
    using r(4) [rule_format, of 0] urls by simp
  moreover have "calls ! 2 = ''http://inventory-service:8080/api/v1/inventory/prod-2''"
    using r(4) [rule_format, of 1] urls by (simp add: numeral_2_eq_2)
  moreover have "calls ! 0 = ''http://user-service:5000/api/v1/users/user-1''"
    using r(3) urls by simp
  ultimately show ?thesis
    using r(1,2) at by simp
qed

text \<open>
  C6. For a successful create of an order with id \<open>i\<close>, a \<open>get(i)\<close> performed immediately
  afterwards, on the store the create left, returns a record identical to the record the
  create returned.
\<close>

theorem get_after_create:
  assumes "post_orders cfg ax now orders req_body = (Response 201 (Order ord), calls, orders')"
  shows "get_order orders' (id' ord) = (Response 200 (Order ord), orders')"
proof -
  from post_orders_cases [OF assms]
  have "orders' = set_property orders (id' ord) ord"
    by auto
  then show ?thesis
    by (simp add: get_order_def get_property_set_property)
qed

theorem get_after_create_witness:
  "post_orders default_config all_resolved 1700000000000 [] scenario_body =
     (Response 201 (Order scenario_order),
      [''http://user-service:5000/api/v1/users/user-123'',
       ''http://inventory-service:8080/api/v1/inventory/prod-1''],
      [(''1700000000000'', scenario_order)]) \<and>
   get_order [(''1700000000000'', scenario_order)] (id' scenario_order) =
     (Response 200 (Order scenario_order), [(''1700000000000'', scenario_order)])"
proof -
  have created: "post_orders default_config all_resolved 1700000000000 [] scenario_body =
     (Response 201 (Order scenario_order),
      [''http://user-service:5000/api/v1/users/user-123'',
       ''http://inventory-service:8080/api/v1/inventory/prod-1''],
      [(''1700000000000'', scenario_order)])"
    by code_simp
  from get_after_create [OF created] created show ?thesis
    by simp
qed

text \<open>
  C7. For every identifier that no create has returned, \<open>get\<close> yields NotFound: a 404
  response with the body \<open>{error: "Order not found"}\<close>, the store unchanged. The handler
  fails this for the identifier \<open>constructor\<close>, which names a property that \<open>orders\<close>
  inherits from \<open>Object.prototype\<close>: on the empty store the answer is a 200.
\<close>

theorem get_constructor_on_empty_store:
  "get_order [] ''constructor'' = (Response 200 (Prototype ''constructor''), [])"
  by code_simp

text \<open>
  C8. Creation with an empty items list is not rejected: for every \<open>userId\<close> whose user
  existence check succeeds, a creation request with \<open>items = []\<close> succeeds (a 201 result
  with a stored order record) after exactly one external call, the user check, and no
  product check.
\<close>

theorem empty_items_accepted:
  assumes "destructure req_body = Inr (u, JArr [])"
    and "user_check cfg ax u = Some Resolved"
  shows "\<exists>url ord orders'.
           user_url cfg u = Inr url \<and>
           post_orders cfg ax now orders req_body = (Response 201 (Order ord), [url], orders') \<and>
           userId ord = u \<and> items ord = JArr [] \<and> status ord = ''pending'' \<and>
           get_property orders' (id' ord) = Own ord"
proof -
  have "iterate (JArr []) = Inr []"
    by simp
  from post_orders_accepts [OF assms(1) this assms(2), of now orders]
  obtain calls where calls: "post_orders cfg ax now orders req_body =
           (Response 201 (Order \<lparr>id' = string_of_int now, userId = u, items = JArr [], status = ''pending''\<rparr>),
            calls,
            set_property orders (string_of_int now)
              \<lparr>id' = string_of_int now, userId = u, items = JArr [], status = ''pending''\<rparr>)"
      "length calls = Suc 0" "user_url cfg u = Inr (calls ! 0)"
    by auto
  from calls(2) have "calls = [calls ! 0]"
    by (cases calls) simp_all
  with calls(1,3) show ?thesis
    by (metis get_property_set_property order.select_convs(1,2,3,4))
qed

theorem empty_items_accepted_witness:
  "destructure other_body = Inr (JStr ''user-456'', JArr []) \<and>
   user_check default_config all_resolved (JStr ''user-456'') = Some Resolved \<and>
   (\<exists>ord orders'. post_orders default_config all_resolved 1700000000000 [] other_body =
      (Response 201 (Order ord), [''http://user-service:5000/api/v1/users/user-456''], orders') \<and>
      items ord = JArr [] \<and> get_property orders' (id' ord) = Own ord)"
proof -
  have body: "destructure other_body = Inr (JStr ''user-456'', JArr [])"
    by code_simp
  have url: "user_url default_config (JStr ''user-456'') = Inr ''http://user-service:5000/api/v1/users/user-456''"
    by code_simp
  then have user: "user_check default_config all_resolved (JStr ''user-456'') = Some Resolved"
    by (simp add: user_check_def all_resolved_def)
  from empty_items_accepted [OF body user, of 1700000000000 "[]"] url body user show ?thesis
    by auto
qed

text \<open>
  C9. Retrieval leaves the store unchanged, and no operation changes or deletes an order
  once created: the record retrieved for its id stays the record originally created. A
  later creation that reads the same clock value replaces the record: the same \<open>get\<close>
  answers with one order before it and with another after it.
\<close>

theorem stored_order_replaced:
  "fst (serve default_config []
     [PostOrders other_body all_resolved 1700000000000,
      GetOrder ''1700000000000'',
      PostOrders scenario_body all_resolved 1700000000000,
      GetOrder ''1700000000000'']) =
     [Response 201 (Order other_order),
      Response 200 (Order other_order),
      Response 201 (Order scenario_order),
      Response 200 (Order scenario_order)] \<and>
   other_order \<noteq> scenario_order"
  by code_simp

text \<open>
  C10. For a creation request whose body lacks an iterable \<open>items\<close> field (\<open>items\<close> is
  missing or is not iterable, or the body itself cannot be destructured), the handler does
  not crash and stores nothing: the error thrown in the \<open>try\<close> block is caught and the
  result is a 400 response with that error's message, the store unchanged, after at most
  the user check. When the user check succeeds, the error is the iteration failure.
\<close>

theorem non_iterable_items_rejected:
  assumes "\<forall>u its. destructure req_body = Inr (u, its) \<longrightarrow> \<not> iterable its"
  shows "(\<exists>e calls. validate cfg ax req_body = (calls, Inl e) \<and> length calls \<le> 1 \<and>
            post_orders cfg ax now orders req_body = (Response 400 (Error (message e)), calls, orders))
         \<and> (\<forall>u its. destructure req_body = Inr (u, its) \<longrightarrow> user_check cfg ax u = Some Resolved \<longrightarrow>
              fst (post_orders cfg ax now orders req_body) = Response 400 (Error ''items is not iterable''))"
proof (intro conjI allI impI)
  from validate_not_iterable [OF assms]
  obtain e calls where "validate cfg ax req_body = (calls, Inl e)" "length calls \<le> 1"
    by blast
  then show "\<exists>e calls. validate cfg ax req_body = (calls, Inl e) \<and> length calls \<le> 1 \<and>
            post_orders cfg ax now orders req_body = (Response 400 (Error (message e)), calls, orders)"
    by (simp add: post_orders_def)
next
  fix u its
  assume body: "destructure req_body = Inr (u, its)"
    and user: "user_check cfg ax u = Some Resolved"
  from body assms have "\<not> iterable its"
    by blast
  then have its: "iterate its = Inl (TypeError ''items is not iterable'')"
    by (rule not_iterable_error)
  from user_check_SomeD [OF user]
  obtain url where "user_url cfg u = Inr url" "ax 0 url = Resolved"
    by blast
  then have "validate cfg ax req_body = ([url], Inl (TypeError ''items is not iterable''))"
    using body its by (simp add: validate_def)
  then show "fst (post_orders cfg ax now orders req_body) = Response 400 (Error ''items is not iterable'')"
    by (simp add: post_orders_def)
qed

theorem non_iterable_items_rejected_witness:
  "destructure no_items_body = Inr (JStr ''user-123'', JUndefined) \<and>
   \<not> iterable JUndefined \<and>
   user_check default_config all_resolved (JStr ''user-123'') = Some Resolved \<and>
   fst (post_orders default_config all_resolved 1700000000000 [] no_items_body)
     = Response 400 (Error ''items is not iterable'') \<and>
   snd (snd (post_orders default_config all_resolved 1700000000000 [] no_items_body)) = []"
proof -
  have body: "destructure no_items_body = Inr (JStr ''user-123'', JUndefined)"
    by code_simp
  have its: "\<not> iterable JUndefined"
    by (simp add: iterable_def)
  have user: "user_check default_config all_resolved (JStr ''user-123'') = Some Resolved"
    by code_simp
  have hyp: "\<forall>u its. destructure no_items_body = Inr (u, its) \<longrightarrow> \<not> iterable its"
    using body its by simp
  from non_iterable_items_rejected [OF hyp, of default_config all_resolved 1700000000000 "[]"]
    body its user
  show ?thesis
    by auto
qed

end
